theory Spec2Isabelle
  imports Main
begin

section \<open>Python text primitives\<close>

text \<open>
  The macro builder keeps every macro step as a Python string and recognises it by its
  prefix. A Python string is modelled as a \<open>string\<close>; a \<open>char\<close> stands for a code point
  below 256, which covers the ASCII text the step tokens are made of.
\<close>

definition startswith :: "string \<Rightarrow> string \<Rightarrow> bool" where
  \<comment> \<open>\<open>s.startswith(p)\<close>\<close>
  "startswith s p = (take (length p) s = p)"

definition upper_char :: "char \<Rightarrow> string" where
  \<comment> \<open>\<open>str.upper\<close> on one character: the ASCII letters, and the sharp s (code point 223),
     whose upper case is the two letters SS. Every other character above 127 maps to a
     character above 127 again; the model keeps it as it is.\<close>
  "upper_char c =
     (if c = CHR 0xDF then ''SS''
      else case map_of (zip ''abcdefghijklmnopqrstuvwxyz'' ''ABCDEFGHIJKLMNOPQRSTUVWXYZ'') c of
             Some u \<Rightarrow> [u]
           | None \<Rightarrow> [c])"

definition upper :: "string \<Rightarrow> string" where
  "upper s = concat (map upper_char s)"

definition str_space :: "char \<Rightarrow> bool" where
  \<comment> \<open>the characters \<open>str.strip()\<close> removes\<close>
  "str_space c = (c \<in> set [CHR 0x09, CHR 0x0A, CHR 0x0B, CHR 0x0C, CHR 0x0D,
                            CHR 0x1C, CHR 0x1D, CHR 0x1E, CHR 0x1F, CHR 0x20,
                            CHR 0x85, CHR 0xA0])"

definition strip :: "string \<Rightarrow> string" where
  "strip s = rev (dropWhile str_space (rev (dropWhile str_space s)))"

definition int_space :: "char \<Rightarrow> bool" where
  \<comment> \<open>the characters \<open>int()\<close> skips around a numeral\<close>
  "int_space c = (c \<in> set [CHR 0x09, CHR 0x0A, CHR 0x0B, CHR 0x0C, CHR 0x0D, CHR 0x20,
                            CHR 0x85, CHR 0xA0])"

definition digit_val :: "char \<Rightarrow> nat option" where
  "digit_val c = map_of (zip ''0123456789'' [0, 1, 2, 3, 4, 5, 6, 7, 8, 9]) c"

fun digits_value :: "nat \<Rightarrow> bool \<Rightarrow> string \<Rightarrow> nat option" where
  \<comment> \<open>decimal digits, single underscores allowed between two digits; the flag says that
     the character before was a digit\<close>
  "digits_value acc prev_digit [] = (if prev_digit then Some acc else None)"
| "digits_value acc prev_digit (c # cs) =
     (if c = CHR ''_'' then (if prev_digit then digits_value acc False cs else None)
      else case digit_val c of
             None \<Rightarrow> None
           | Some d \<Rightarrow> digits_value (10 * acc + d) True cs)"

definition py_int :: "string \<Rightarrow> int option" where
  \<comment> \<open>\<open>int(s)\<close>; \<open>None\<close> is the \<open>ValueError\<close>. The interpreter's optional cap on the
     number of digits is taken as switched off.\<close>
  "py_int s =
     (case rev (dropWhile int_space (rev (dropWhile int_space s))) of
        [] \<Rightarrow> None
      | c # cs \<Rightarrow>
          if c = CHR ''-'' then map_option (\<lambda>n. - int n) (digits_value 0 False cs)
          else if c = CHR ''+'' then map_option int (digits_value 0 False cs)
          else map_option int (digits_value 0 False (c # cs)))"

fun str_nat :: "nat \<Rightarrow> string" where
  "str_nat n =
     (if n < 10 then [''0123456789'' ! n]
      else str_nat (n div 10) @ [''0123456789'' ! (n mod 10)])"

declare str_nat.simps [simp del]

definition py_str :: "int \<Rightarrow> string" where
  \<comment> \<open>an integer inside an f-string\<close>
  "py_str k = (if k < 0 then CHR ''-'' # str_nat (nat (- k)) else str_nat (nat k))"

fun split_on :: "char \<Rightarrow> string \<Rightarrow> string list" where
  \<comment> \<open>\<open>s.split(sep)\<close> for a one-character separator\<close>
  "split_on sep [] = [[]]"
| "split_on sep (c # cs) =
     (if c = sep then [] # split_on sep cs
      else (c # hd (split_on sep cs)) # tl (split_on sep cs))"

fun join :: "string \<Rightarrow> string list \<Rightarrow> string" where
  \<comment> \<open>\<open>sep.join(xs)\<close>\<close>
  "join sep [] = []"
| "join sep [x] = x"
| "join sep (x # y # ys) = x @ sep @ join sep (y # ys)"

definition is_ascii :: "char \<Rightarrow> bool" where
  "is_ascii c = ((of_char c :: nat) < 128)"

definition BUTTONS :: "string list" where
  "BUTTONS = [''A'', ''B'', ''X'', ''Y'', ''L'', ''R'', ''ZL'', ''ZR'', ''PLUS'', ''MINUS'',
              ''HOME'', ''CAPTURE'', ''LSTICK'', ''RSTICK'']"

definition DPAD :: "(string \<times> string) list" where
  "DPAD = [(''Up'', ''DUP''), (''Down'', ''DDOWN''), (''Left'', ''DLEFT''), (''Right'', ''DRIGHT''),
           (''Up-Left'', ''DUPLEFT''), (''Up-Right'', ''DUPRIGHT''),
           (''Down-Left'', ''DDOWNLEFT''), (''Down-Right'', ''DDOWNRIGHT'')]"

definition button_names :: "string list" where
  \<comment> \<open>the names the step editor and the manual controls offer\<close>
  "button_names = BUTTONS @ map snd DPAD"

section \<open>Application state\<close>

datatype exn =
    RuntimeError string       \<comment> \<open>raised by \<open>_send_sysbot_cmd\<close>\<close>
  | UnicodeEncodeError        \<comment> \<open>\<open>encode("ascii")\<close> on a character above 127\<close>
  | OSError string            \<comment> \<open>\<open>sendall\<close> failed; the text is the system's message\<close>
  | ValueError_int string     \<comment> \<open>\<open>int()\<close> on the given literal\<close>
  | ValueError_sleep          \<comment> \<open>\<open>time.sleep\<close> of a negative length\<close>
  | OverflowError             \<comment> \<open>a delay too long for the platform's timer\<close>
  | ValueError string
  | KeyError string
  | LoadError string          \<comment> \<open>\<open>open\<close> or \<open>json.load\<close> failed\<close>

datatype event =
    Sent string               \<comment> \<open>bytes handed to the connection by one \<open>sendall\<close>\<close>
  | Slept int                 \<comment> \<open>a blocking delay, in milliseconds\<close>

datatype status =
    Status string
  | StatusError exn           \<comment> \<open>the text \<open>Error: \<close> followed by \<open>str(e)\<close>\<close>

datatype dialog =
    ShowError string string   \<comment> \<open>\<open>messagebox.showerror(title, message)\<close>\<close>
  | ShowInfo string string    \<comment> \<open>\<open>messagebox.showinfo(title, message)\<close>\<close>
  | ShowException string exn  \<comment> \<open>\<open>messagebox.showerror(title, str(e))\<close>\<close>

text \<open>
  The socket is the program's only view of the device. What the peer and the network do
  is given as the outcomes of the coming \<open>sendall\<close> calls, in order: \<open>None\<close> where the
  call delivers its bytes, \<open>Some msg\<close> where it raises \<open>OSError\<close>. Calls beyond the list
  deliver.
\<close>

type_synonym sock = "string option list"

definition sendall :: "sock \<Rightarrow> string option \<times> sock" where
  "sendall k = (case k of [] \<Rightarrow> (None, []) | r # rest \<Rightarrow> (r, rest))"

text \<open>
  A macro is a dictionary with the keys \<open>name\<close>, \<open>trigger\<close>, \<open>chat_command\<close> and \<open>steps\<close>,
  each of which may be absent. The first three hold strings. \<open>steps\<close> holds a list object,
  which \<open>dict.copy\<close> shares between the copy and the original: it is a reference into
  the store of step lists.
\<close>

record macro =
  m_name :: "string option"
  m_trigger :: "string option"
  m_chat_command :: "string option"
  m_steps :: "nat option"

text \<open>
  A macro file holds one object or a list of objects of the same shape, with the step
  list written out. Any other document is \<open>JOther\<close>.
\<close>

record file_macro =
  f_name :: "string option"
  f_trigger :: "string option"
  f_chat_command :: "string option"
  f_steps :: "string list option"

datatype json_doc = JObject file_macro | JArray "file_macro list" | JOther

record app =
  macros :: "macro list"
  heap :: "string list list"            \<comment> \<open>the step list objects, by reference\<close>
  selected_index :: "nat option"
  switch_socket :: "sock option"
  switch_connected :: bool
  name_var :: string
  trigger_var :: string
  steps_listbox :: "string list"
  macro_listbox :: "string list"
  macro_curselection :: "nat option"    \<comment> \<open>\<open>macro_listbox.curselection()\<close>\<close>
  preview :: string
  interp_preview :: string
  test_status_var :: status
  dialogs :: "dialog list"              \<comment> \<open>the message boxes shown, oldest first\<close>
  stick_x :: int
  stick_y :: int
  trace :: "event list"                 \<comment> \<open>sends and delays, oldest first\<close>

definition init_app :: app where
  \<comment> \<open>the state \<open>__init__\<close> leaves: no macro, no connection, an empty editor\<close>
  "init_app =
     \<lparr>macros = [], heap = [], selected_index = None, switch_socket = None,
      switch_connected = False, name_var = [], trigger_var = [], steps_listbox = [],
      macro_listbox = [], macro_curselection = None, preview = [], interp_preview = [],
      test_status_var = Status [], dialogs = [], stick_x = 0, stick_y = 0, trace = []\<rparr>"

definition playing :: "sock \<Rightarrow> string list \<Rightarrow> app" where
  \<comment> \<open>a connected application whose only macro, selected in the list, has the given steps\<close>
  "playing k steps =
     init_app\<lparr>macros := [\<lparr>m_name = Some ''Jump'', m_trigger = Some ''!jump'',
                            m_chat_command = Some ''!jump'', m_steps = Some 0\<rparr>],
              heap := [steps], macro_listbox := [''Jump''], macro_curselection := Some 0,
              selected_index := Some 0, switch_socket := Some k, switch_connected := True\<rparr>"

section \<open>Sending commands\<close>

type_synonym 'a act = "app \<Rightarrow> (exn + 'a) \<times> app"

definition return :: "'a \<Rightarrow> 'a act" where
  "return x s = (Inr x, s)"

definition raise :: "exn \<Rightarrow> 'a act" where
  "raise e s = (Inl e, s)"

definition and_then :: "'a act \<Rightarrow> ('a \<Rightarrow> 'b act) \<Rightarrow> 'b act" where
  \<comment> \<open>one statement after another; an exception skips what follows\<close>
  "and_then f g s = (case f s of (Inl e, s') \<Rightarrow> (Inl e, s') | (Inr x, s') \<Rightarrow> g x s')"

definition send_sysbot_cmd :: "string \<Rightarrow> unit act" where
  "send_sysbot_cmd cmd s =
     (case switch_socket s of
        None \<Rightarrow> (Inl (RuntimeError ''Not connected''), s)
      | Some k \<Rightarrow>
          if \<not> list_all is_ascii (cmd @ [CHR 0x0A]) then (Inl UnicodeEncodeError, s)
          else (case sendall k of
                  (Some msg, k') \<Rightarrow> (Inl (OSError msg), s\<lparr>switch_socket := Some k'\<rparr>)
                | (None, k') \<Rightarrow>
                    (Inr (), s\<lparr>switch_socket := Some k',
                                trace := trace s @ [Sent (cmd @ [CHR 0x0A])]\<rparr>)))"

definition sleep_ms :: "int \<Rightarrow> int \<Rightarrow> unit act" where
  \<comment> \<open>\<open>time.sleep(ms/1000)\<close>: a negative length raises \<open>ValueError\<close>, a length beyond
     \<open>lim\<close>, the longest delay the platform's timer takes, raises \<open>OverflowError\<close>\<close>
  "sleep_ms lim ms s =
     (if ms < 0 then (Inl ValueError_sleep, s)
      else if lim < ms then (Inl OverflowError, s)
      else (Inr (), s\<lparr>trace := trace s @ [Slept ms]\<rparr>))"

definition settle :: "unit act" where
  \<comment> \<open>\<open>time.sleep(0.1)\<close>\<close>
  "settle s = (Inr (), s\<lparr>trace := trace s @ [Slept 100]\<rparr>)"

definition to_int :: "string \<Rightarrow> int act" where
  "to_int lit = (case py_int lit of None \<Rightarrow> raise (ValueError_int lit) | Some k \<Rightarrow> return k)"

section \<open>Macro playback\<close>

definition stick_move :: "string \<Rightarrow> string \<Rightarrow> unit act" where
  \<comment> \<open>the body shared by the \<open>%\<close>, \<open>&\<close> and \<open>Stick:\<close> branches\<close>
  "stick_move side payload =
     (let xy = split_on CHR '','' payload in
      if length xy = 2 then
        and_then (to_int (xy ! 0)) (\<lambda>x.
        and_then (to_int (xy ! 1)) (\<lambda>y.
        and_then (send_sysbot_cmd (''setStick '' @ side @ '' '' @ py_str x @ '' '' @ py_str y)) (\<lambda>_.
        settle)))
      else return ())"

definition loop_body :: "int \<Rightarrow> string list \<Rightarrow> nat \<Rightarrow> bool act" where
  \<comment> \<open>one pass through the body of the \<open>while\<close> loop at cursor \<open>i\<close>. The result is
     \<open>True\<close> where the pass leaves by \<open>i += 2; continue\<close>, \<open>False\<close> where it reaches the
     final \<open>i += 1\<close>.\<close>
  "loop_body lim steps i =
     (let step = steps ! i in
      if startswith step ''Button:'' then
        (let btn = upper (drop 7 step);
             next_is_wait = (i + 1 < length steps \<and> startswith (steps ! (i + 1)) ''Wait:'')
         in if next_is_wait then
              and_then (send_sysbot_cmd (''press '' @ btn)) (\<lambda>_.
              and_then (to_int (drop 5 (steps ! (i + 1)))) (\<lambda>ms.
              and_then (sleep_ms lim ms) (\<lambda>_.
              and_then (send_sysbot_cmd (''release '' @ btn)) (\<lambda>_.
              return True))))
            else
              and_then (send_sysbot_cmd (''click '' @ btn)) (\<lambda>_.
              and_then settle (\<lambda>_.
              return False)))
      else if startswith step ''Hold:'' then
        and_then (send_sysbot_cmd (''press '' @ upper (drop 5 step))) (\<lambda>_. return False)
      else if startswith step ''Release:'' then
        and_then (send_sysbot_cmd (''release '' @ upper (drop 8 step))) (\<lambda>_. return False)
      else if startswith step ''%'' then
        and_then (stick_move ''LEFT'' (drop 1 step)) (\<lambda>_. return False)
      else if startswith step ''&'' then
        and_then (stick_move ''RIGHT'' (drop 1 step)) (\<lambda>_. return False)
      else if startswith step ''Stick:'' then
        and_then (stick_move ''LEFT'' (drop 6 step)) (\<lambda>_. return False)
      else if startswith step ''Wait:'' then
        and_then (to_int (drop 5 step)) (\<lambda>ms.
        and_then (sleep_ms lim ms) (\<lambda>_. return False))
      else return False)"

function run_steps :: "int \<Rightarrow> string list \<Rightarrow> nat \<Rightarrow> unit act" where
  \<comment> \<open>the \<open>while i < len(steps)\<close> loop from cursor \<open>i\<close>\<close>
  "run_steps lim steps i s =
     (if i < length steps then
        (case loop_body lim steps i s of
           (Inl e, s') \<Rightarrow> (Inl e, s')
         | (Inr True, s') \<Rightarrow> run_steps lim steps (i + 2) s'
         | (Inr False, s') \<Rightarrow> run_steps lim steps (i + 1) s')
      else (Inr (), s))"
  by pat_completeness auto

termination
  by (relation "measure (\<lambda>(lim, steps, i, s). length steps - i)") auto

declare run_steps.simps [simp del]

definition macro_steps :: "app \<Rightarrow> macro \<Rightarrow> string list" where
  \<comment> \<open>\<open>macro.get('steps', [])\<close>\<close>
  "macro_steps s m = (case m_steps m of None \<Rightarrow> [] | Some a \<Rightarrow> heap s ! a)"

definition test_macro :: "int \<Rightarrow> app \<Rightarrow> app" where
  \<comment> \<open>\<open>_test_macro\<close>. An index outside \<open>macros\<close> raises outside the \<open>try\<close>: the
     callback ends there with the state as it was.\<close>
  "test_macro lim s =
     (if \<not> switch_connected s \<or> switch_socket s = None then
        s\<lparr>test_status_var := Status ''Not connected to Switch!''\<rparr>
      else case macro_curselection s of
        None \<Rightarrow> s\<lparr>test_status_var := Status ''No macro selected.''\<rparr>
      | Some idx \<Rightarrow>
          if \<not> idx < length (macros s) then s
          else
            (let steps = macro_steps s (macros s ! idx) in
             if steps = [] then s\<lparr>test_status_var := Status ''Macro has no steps.''\<rparr>
             else case run_steps lim steps 0 s of
                    (Inr _, s') \<Rightarrow> s'\<lparr>test_status_var := Status ''Macro sent!''\<rparr>
                  | (Inl e, s') \<Rightarrow> s'\<lparr>test_status_var := StatusError e\<rparr>))"

text \<open>
  Playback that starts at cursor \<open>i\<close> in state \<open>s\<close> gets to cursor \<open>j\<close> in state \<open>t\<close>: every
  pass on the way returned without an exception.
\<close>

inductive reaches :: "int \<Rightarrow> string list \<Rightarrow> nat \<Rightarrow> app \<Rightarrow> nat \<Rightarrow> app \<Rightarrow> bool"
  for lim :: int and steps :: "string list" and i :: nat and s :: app
where
  start: "reaches lim steps i s i s"
| pass: "reaches lim steps i s j t \<Longrightarrow> j < length steps \<Longrightarrow>
         loop_body lim steps j t = (Inr b, t') \<Longrightarrow>
         reaches lim steps i s (if b then j + 2 else j + 1) t'"

section \<open>The macro editor\<close>

definition interpret_step :: "string \<Rightarrow> string" where
  "interpret_step step =
     (if startswith step ''Button:'' then ''Press '' @ drop 7 step
      else if startswith step ''Hold:'' then ''Hold '' @ drop 5 step
      else if startswith step ''Release:'' then ''Release '' @ drop 8 step
      else if startswith step ''Stick:'' then ''Move stick to '' @ drop 6 step
      else if startswith step ''Wait:'' then ''Wait '' @ drop 5 step @ '' ms''
      else step)"

definition get_steps :: "app \<Rightarrow> string list" where
  "get_steps s = steps_listbox s"

definition set_steps :: "string list \<Rightarrow> app \<Rightarrow> app" where
  "set_steps steps s = s\<lparr>steps_listbox := steps\<rparr>"

definition update_preview :: "app \<Rightarrow> app" where
  "update_preview s =
     (let steps = get_steps s;
          raw = join '','' steps;
          interp = join [CHR 0x0A] (map interpret_step steps)
      in s\<lparr>preview := raw, interp_preview := interp\<rparr>)"

definition new_macro :: "app \<Rightarrow> app" where
  "new_macro s =
     update_preview
       ((set_steps [] (s\<lparr>selected_index := None, name_var := [], trigger_var := []\<rparr>))
          \<lparr>macro_curselection := None\<rparr>)"

definition get_or_empty :: "string option \<Rightarrow> string" where
  \<comment> \<open>\<open>macro.get(key, '')\<close>\<close>
  "get_or_empty v = (case v of None \<Rightarrow> [] | Some x \<Rightarrow> x)"

definition on_select :: "app \<Rightarrow> app" where
  \<comment> \<open>\<open>_on_select\<close>. An index outside \<open>macros\<close> raises \<open>IndexError\<close> before anything is
     assigned.\<close>
  "on_select s =
     (case macro_curselection s of
        None \<Rightarrow> s\<lparr>selected_index := None\<rparr>
      | Some idx \<Rightarrow>
          if \<not> idx < length (macros s) then s
          else
            (let m = macros s ! idx in
             update_preview
               (set_steps (macro_steps s m)
                  (s\<lparr>selected_index := Some idx,
                     name_var := get_or_empty (m_name m),
                     trigger_var :=
                       (if get_or_empty (m_trigger m) \<noteq> [] then get_or_empty (m_trigger m)
                        else get_or_empty (m_chat_command m))\<rparr>))))"

definition refresh_macro_list :: "app \<Rightarrow> app" where
  \<comment> \<open>\<open>_refresh_macro_list\<close>: the list box is rebuilt, which clears its selection; a valid
     \<open>selected_index\<close> is selected again and the selection event runs \<open>_on_select\<close>.\<close>
  "refresh_macro_list s =
     (let s1 = s\<lparr>macro_listbox := map (\<lambda>m. get_or_empty (m_name m)) (macros s),
                  macro_curselection := None\<rparr>
      in case selected_index s1 of
           None \<Rightarrow> new_macro s1
         | Some i \<Rightarrow>
             if i < length (macros s1) then on_select (s1\<lparr>macro_curselection := Some i\<rparr>)
             else new_macro s1)"

definition clone_macro :: "app \<Rightarrow> app" where
  \<comment> \<open>\<open>_clone_macro\<close>. \<open>dict.copy()\<close> makes a new dictionary with the same values: the
     copy's \<open>steps\<close> is the original's list object. Without a \<open>name\<close> key the \<open>+=\<close> raises
     \<open>KeyError\<close> before \<open>macros\<close> is touched.\<close>
  "clone_macro s =
     (case selected_index s of
        None \<Rightarrow> s
      | Some i \<Rightarrow>
          if \<not> i < length (macros s) then s
          else
            (let m = macros s ! i in
             case m_name m of
               None \<Rightarrow> s
             | Some n \<Rightarrow>
                 refresh_macro_list
                   (s\<lparr>macros := take (i + 1) (macros s) @ [m\<lparr>m_name := Some (n @ '' (Copy)'')\<rparr>]
                                  @ drop (i + 1) (macros s),
                      selected_index := Some (i + 1)\<rparr>)))"

fun json_load :: "string list list \<Rightarrow> file_macro list \<Rightarrow> string list list \<times> macro list" where
  \<comment> \<open>the dictionaries \<open>json.load\<close> builds: every step list is a new list object\<close>
  "json_load h [] = (h, [])"
| "json_load h (f # fs) =
     (case f_steps f of
        None \<Rightarrow>
          (let (h', ms) = json_load h fs
           in (h', \<lparr>m_name = f_name f, m_trigger = f_trigger f,
                     m_chat_command = f_chat_command f, m_steps = None\<rparr> # ms))
      | Some xs \<Rightarrow>
          (let (h', ms) = json_load (h @ [xs]) fs
           in (h', \<lparr>m_name = f_name f, m_trigger = f_trigger f,
                     m_chat_command = f_chat_command f, m_steps = Some (length h)\<rparr> # ms)))"

definition accept_alias :: "macro \<Rightarrow> macro" where
  \<comment> \<open>the body of the loop \<open>for m in data\<close>\<close>
  "accept_alias m =
     (if m_chat_command m \<noteq> None \<and> m_trigger m = None then m\<lparr>m_trigger := m_chat_command m\<rparr>
      else m)"

definition import_macros :: "(string \<times> (exn + json_doc)) option \<Rightarrow> app \<Rightarrow> app" where
  \<comment> \<open>\<open>_import_macros\<close>. The argument is what the file dialog and the file give: \<open>None\<close>
     where the dialog is cancelled, else the path with the parsed document or the
     exception of \<open>open\<close> or \<open>json.load\<close>.\<close>
  "import_macros chosen s =
     (case chosen of
        None \<Rightarrow> s
      | Some (path, Inl e) \<Rightarrow> s\<lparr>dialogs := dialogs s @ [ShowException ''Import Error'' e]\<rparr>
      | Some (path, Inr doc) \<Rightarrow>
          (case (case doc of JObject f \<Rightarrow> Some [f] | JArray fs \<Rightarrow> Some fs | JOther \<Rightarrow> None) of
             None \<Rightarrow>
               s\<lparr>dialogs := dialogs s @
                    [ShowException ''Import Error'' (ValueError ''Invalid macro file format.'')]\<rparr>
           | Some fs \<Rightarrow>
               (let (h', loaded) = json_load (heap s) fs;
                    data = map accept_alias loaded;
                    s1 = refresh_macro_list (s\<lparr>heap := h', macros := macros s @ data\<rparr>)
                in s1\<lparr>dialogs := dialogs s1 @
                        [ShowInfo ''Import''
                           (''Imported '' @ py_str (int (length data)) @ '' macros from '' @ path)]\<rparr>)))"

definition save_macro :: "app \<Rightarrow> app" where
  \<comment> \<open>\<open>_save_macro\<close>; the list \<open>_get_steps\<close> builds enters the store where the macro that
     holds it is made\<close>
  "save_macro s =
     (let name = strip (name_var s);
          trig = strip (trigger_var s);
          steps = get_steps s
      in if name = [] then
           s\<lparr>dialogs := dialogs s @ [ShowError ''Error'' ''Macro name is required.'']\<rparr>
         else if trig = [] then
           s\<lparr>dialogs := dialogs s @ [ShowError ''Error'' ''Trigger is required.'']\<rparr>
         else if steps = [] then
           s\<lparr>dialogs := dialogs s @ [ShowError ''Error'' ''At least one step is required.'']\<rparr>
         else
           (let m = \<lparr>m_name = Some name, m_trigger = Some trig, m_chat_command = Some trig,
                     m_steps = Some (length (heap s))\<rparr>;
                s1 = s\<lparr>heap := heap s @ [steps]\<rparr>;
                s2 = (case selected_index s1 of
                        None \<Rightarrow>
                          s1\<lparr>macros := macros s1 @ [m],
                             selected_index := Some (length (macros s1))\<rparr>
                      | Some i \<Rightarrow>
                          if i < length (macros s1) then s1\<lparr>macros := (macros s1)[i := m]\<rparr>
                          else s1\<lparr>macros := macros s1 @ [m],
                                  selected_index := Some (length (macros s1))\<rparr>);
                s3 = refresh_macro_list s2
            in s3\<lparr>dialogs := dialogs s3 @
                    [ShowInfo ''Saved'' (''Macro '' @ [CHR 0x27] @ name @ [CHR 0x27] @ '' saved.'')]\<rparr>))"


section \<open>Basic facts\<close>

lemma startswith_Nil [simp]: "startswith s []"
  by (simp add: startswith_def)

lemma startswith_Cons [simp]: "startswith (c # s) (d # p) \<longleftrightarrow> c = d \<and> startswith s p"
  by (simp add: startswith_def)

lemma startswith_empty [simp]: "startswith [] (d # p) \<longleftrightarrow> False"
  by (simp add: startswith_def)

lemma button_name_upper: "b \<in> set button_names \<Longrightarrow> upper b = b"
  by (auto simp: button_names_def BUTTONS_def DPAD_def upper_def upper_char_def)

lemma button_name_ascii: "b \<in> set button_names \<Longrightarrow> list_all is_ascii b"
  by (auto simp: button_names_def BUTTONS_def DPAD_def is_ascii_def)

lemma run_steps_step:
  "i < length steps \<Longrightarrow> loop_body lim steps i s = (Inr b, s') \<Longrightarrow>
   run_steps lim steps i s = run_steps lim steps (if b then i + 2 else i + 1) s'"
  by (subst run_steps.simps) simp


lemma run_steps_end: "\<not> i < length steps \<Longrightarrow> run_steps lim steps i s = (Inr (), s)"
  by (subst run_steps.simps) simp




lemma stick_move_skip:
  "length (split_on CHR '','' payload) \<noteq> 2 \<Longrightarrow> stick_move side payload s = (Inr (), s)"
  by (simp add: stick_move_def Let_def return_def)


lemma run_steps_unfold:
  "i < length steps \<Longrightarrow>
   run_steps lim steps i s =
     (case loop_body lim steps i s of
        (Inl e, s') \<Rightarrow> (Inl e, s')
      | (Inr b, s') \<Rightarrow> run_steps lim steps (if b then i + 2 else i + 1) s')"
  by (subst run_steps.simps) (auto split: prod.splits sum.splits)





lemma split_on_plain: "sep \<notin> set x \<Longrightarrow> split_on sep x = [x]"
  by (induction x) auto

lemma split_on_append:
  "sep \<notin> set x \<Longrightarrow> split_on sep (x @ sep # r) = x # split_on sep r"
proof (induction x)
  case Nil
  show ?case by simp
next
  case (Cons a x)
  have ne: "a \<noteq> sep"
    using Cons.prems by auto
  have ih: "split_on sep (x @ sep # r) = x # split_on sep r"
    using Cons.IH Cons.prems by simp
  show ?case
    using ne by (simp add: ih)
qed

lemma split_on_join:
  "xs \<noteq> [] \<Longrightarrow> \<forall>x \<in> set xs. sep \<notin> set x \<Longrightarrow> split_on sep (join [sep] xs) = xs"
proof (induction xs)
  case Nil
  then show ?case by simp
next
  case (Cons x xs)
  show ?case
  proof (cases xs)
    case Nil
    then show ?thesis
      using Cons.prems(2) by (simp add: split_on_plain)
  next
    case (Cons y ys)
    have ih: "split_on sep (join [sep] (y # ys)) = y # ys"
      using Cons.IH Cons.prems(2) Cons by simp
    have "sep \<notin> set x"
      using Cons.prems(2) by simp
    then have "split_on sep (x @ sep # join [sep] (y # ys)) = x # split_on sep (join [sep] (y # ys))"
      by (rule split_on_append)
    then show ?thesis
      using ih Cons by simp
  qed
qed

lemma interpret_step_newline:
  assumes "CHR 0x0A \<notin> set t"
  shows "CHR 0x0A \<notin> set (interpret_step t)"
proof -
  have d: "CHR 0x0A \<notin> set (drop n t)" for n
    using assms by (meson in_set_dropD)
  show ?thesis
    unfolding interpret_step_def using assms d [of 5] d [of 6] d [of 7] d [of 8]
    by simp
qed

lemma update_preview_fields:
  "preview (update_preview s) = join '','' (steps_listbox s)"
  "interp_preview (update_preview s) = join [CHR 0x0A] (map interpret_step (steps_listbox s))"
  by (simp_all add: update_preview_def get_steps_def Let_def)

lemma interpret_step_examples:
  "interpret_step (''Button:'' @ b) = ''Press '' @ b"
  "interpret_step (''Wait:'' @ ms) = ''Wait '' @ ms @ '' ms''"
  by (simp_all add: interpret_step_def)


lemma refresh_macro_list_keeps:
  "macros (refresh_macro_list s) = macros s"
  "heap (refresh_macro_list s) = heap s"
  "dialogs (refresh_macro_list s) = dialogs s"
  by (simp_all add: refresh_macro_list_def new_macro_def on_select_def update_preview_def
      set_steps_def get_steps_def Let_def split: option.splits)

lemma refresh_macro_list_selected:
  "i < length (macros s) \<Longrightarrow> selected_index s = Some i \<Longrightarrow>
   selected_index (refresh_macro_list s) = Some i"
  by (simp add: refresh_macro_list_def new_macro_def on_select_def update_preview_def
      set_steps_def get_steps_def Let_def)

lemma save_macro_blocked:
  "strip (name_var s) = [] \<Longrightarrow>
     save_macro s = s\<lparr>dialogs := dialogs s @ [ShowError ''Error'' ''Macro name is required.'']\<rparr>"
  "strip (name_var s) \<noteq> [] \<Longrightarrow> strip (trigger_var s) = [] \<Longrightarrow>
     save_macro s = s\<lparr>dialogs := dialogs s @ [ShowError ''Error'' ''Trigger is required.'']\<rparr>"
  "strip (name_var s) \<noteq> [] \<Longrightarrow> strip (trigger_var s) \<noteq> [] \<Longrightarrow> steps_listbox s = [] \<Longrightarrow>
     save_macro s =
       s\<lparr>dialogs := dialogs s @ [ShowError ''Error'' ''At least one step is required.'']\<rparr>"
  by (simp_all add: save_macro_def get_steps_def Let_def)

lemma save_macro_stored:
  assumes "strip (name_var s) \<noteq> []" and "strip (trigger_var s) \<noteq> []" and "steps_listbox s \<noteq> []"
  shows "macros (save_macro s) =
      (case selected_index s of
         None \<Rightarrow> macros s @ [\<lparr>m_name = Some (strip (name_var s)),
                    m_trigger = Some (strip (trigger_var s)),
                    m_chat_command = Some (strip (trigger_var s)),
                    m_steps = Some (length (heap s))\<rparr>]
       | Some i \<Rightarrow>
           if i < length (macros s) then
             (macros s)[i := \<lparr>m_name = Some (strip (name_var s)),
                    m_trigger = Some (strip (trigger_var s)),
                    m_chat_command = Some (strip (trigger_var s)),
                    m_steps = Some (length (heap s))\<rparr>]
           else macros s @ [\<lparr>m_name = Some (strip (name_var s)),
                    m_trigger = Some (strip (trigger_var s)),
                    m_chat_command = Some (strip (trigger_var s)),
                    m_steps = Some (length (heap s))\<rparr>])"
    and "heap (save_macro s) = heap s @ [steps_listbox s]"
    and "dialogs (save_macro s) =
      dialogs s @ [ShowInfo ''Saved''
        (''Macro '' @ [CHR 0x27] @ strip (name_var s) @ [CHR 0x27] @ '' saved.'')]"
  using assms
  by (simp_all add: save_macro_def get_steps_def Let_def refresh_macro_list_keeps
      split: option.splits)


section \<open>A tap followed by a wait\<close>

text \<open>
  Claim C1. Where the step at the cursor is \<open>Button:b\<close> for a button \<open>b\<close> of the
  program's button names, the next step is \<open>Wait:\<close> followed by a numeral of value \<open>ms\<close>
  that the timer accepts, and the connection takes both sends, one pass through the loop
  sends \<open>press b\<close>, blocks \<open>ms\<close> milliseconds and sends \<open>release b\<close>, in this order and
  with nothing else; it leaves by \<open>i += 2\<close>, so playback goes on behind the wait step,
  which gets no pass of its own.
\<close>

theorem tap_then_wait:
  assumes "i + 1 < length steps"
    and "steps ! i = ''Button:'' @ b" and "b \<in> set button_names"
    and "steps ! (i + 1) = ''Wait:'' @ w" and "py_int w = Some ms" and "0 \<le> ms" and "ms \<le> lim"
    and "switch_socket s = Some k" and "sendall k = (None, k1)" and "sendall k1 = (None, k2)"
  shows "loop_body lim steps i s =
           (Inr True,
            s\<lparr>switch_socket := Some k2,
              trace := trace s @ [Sent (''press '' @ b @ [CHR 0x0A]), Slept ms,
                                  Sent (''release '' @ b @ [CHR 0x0A])]\<rparr>) \<and>
         run_steps lim steps i s =
           run_steps lim steps (i + 2)
             (s\<lparr>switch_socket := Some k2,
                trace := trace s @ [Sent (''press '' @ b @ [CHR 0x0A]), Slept ms,
                                    Sent (''release '' @ b @ [CHR 0x0A])]\<rparr>)"
proof -
  have body: "loop_body lim steps i s =
          (Inr True, s\<lparr>switch_socket := Some k2,
                trace := trace s @ [Sent (''press '' @ b @ [CHR 0x0A]), Slept ms,
                                    Sent (''release '' @ b @ [CHR 0x0A])]\<rparr>)"
    using assms button_name_upper [OF assms(3)] button_name_ascii [OF assms(3)]
    by (simp add: loop_body_def Let_def and_then_def send_sysbot_cmd_def to_int_def
        sleep_ms_def return_def is_ascii_def)
  then show ?thesis
    using assms(1) by (simp add: run_steps_step)
qed

theorem tap_then_wait_witness:
  "test_macro 4294967295 (playing [] [''Button:A'', ''Wait:250'']) =
     (playing [] [''Button:A'', ''Wait:250''])
       \<lparr>trace := [Sent ''press A\<newline>'', Slept 250, Sent ''release A\<newline>''],
        test_status_var := Status ''Macro sent!''\<rparr>"
  using tap_then_wait [of 0 "[''Button:A'', ''Wait:250'']" "''A''" "''250''" 250 4294967295
      "playing [] [''Button:A'', ''Wait:250'']" "[]" "[]" "[]"]
  by (simp add: test_macro_def macro_steps_def playing_def init_app_def sendall_def
      py_int_def int_space_def digit_val_def button_names_def BUTTONS_def run_steps_end)

section \<open>A tap on its own\<close>

text \<open>
  Claim C6. Where the step at the cursor is \<open>Button:b\<close> for a button \<open>b\<close> of the
  program's button names, no \<open>Wait:\<close> step comes right after it, and the connection takes
  the send, one pass through the loop sends \<open>click b\<close> and then blocks for the fixed 100
  milliseconds, with nothing else, and playback goes on at the next step. For the two
  steps \<open>Button:A\<close>, \<open>Button:B\<close> this gives \<open>click A\<close>, 100 ms, \<open>click B\<close>, 100 ms.
\<close>

theorem lone_tap_clicks:
  assumes "i < length steps"
    and "steps ! i = ''Button:'' @ b" and "b \<in> set button_names"
    and "\<not> (i + 1 < length steps \<and> startswith (steps ! (i + 1)) ''Wait:'')"
    and "switch_socket s = Some k" and "sendall k = (None, k')"
  shows "loop_body lim steps i s =
           (Inr False,
            s\<lparr>switch_socket := Some k',
              trace := trace s @ [Sent (''click '' @ b @ [CHR 0x0A]), Slept 100]\<rparr>) \<and>
         run_steps lim steps i s =
           run_steps lim steps (i + 1)
             (s\<lparr>switch_socket := Some k',
                trace := trace s @ [Sent (''click '' @ b @ [CHR 0x0A]), Slept 100]\<rparr>)"
proof -
  have body: "loop_body lim steps i s =
           (Inr False,
            s\<lparr>switch_socket := Some k',
              trace := trace s @ [Sent (''click '' @ b @ [CHR 0x0A]), Slept 100]\<rparr>)"
    using assms button_name_upper [OF assms(3)] button_name_ascii [OF assms(3)]
    by (auto simp: loop_body_def Let_def and_then_def send_sysbot_cmd_def settle_def
        return_def is_ascii_def)
  show ?thesis
    using body run_steps_step [OF assms(1) body] by simp
qed

theorem lone_tap_clicks_witness:
  "test_macro 4294967295 (playing [] [''Button:A'', ''Button:B'']) =
     (playing [] [''Button:A'', ''Button:B''])
       \<lparr>trace := [Sent ''click A\<newline>'', Slept 100, Sent ''click B\<newline>'', Slept 100],
        test_status_var := Status ''Macro sent!''\<rparr>"
  using lone_tap_clicks [of 0 "[''Button:A'', ''Button:B'']" "''A''"
      "playing [] [''Button:A'', ''Button:B'']" "[]" "[]" 4294967295]
    lone_tap_clicks [of 1 "[''Button:A'', ''Button:B'']" "''B''"
      "(playing [] [''Button:A'', ''Button:B''])
         \<lparr>switch_socket := Some [], trace := [Sent ''click A\<newline>'', Slept 100]\<rparr>" "[]" "[]" 4294967295]
  by (simp add: test_macro_def macro_steps_def playing_def init_app_def sendall_def
      button_names_def BUTTONS_def run_steps_end)


section \<open>Steps that playback passes over\<close>

text \<open>
  Claim C10. A step that starts with none of \<open>Button:\<close>, \<open>Hold:\<close>, \<open>Release:\<close>, \<open>%\<close>,
  \<open>&\<close>, \<open>Stick:\<close>, \<open>Wait:\<close>, and a \<open>%\<close>, \<open>&\<close> or \<open>Stick:\<close> step whose text after the
  prefix does not split at commas into exactly two fields, is passed over: the pass
  raises nothing and leaves the whole state, the trace of sends and delays included, as it
  was, and playback goes on at the next step. The witness is a macro of three such steps,
  which ends with the status \<open>Macro sent!\<close> and an empty trace.
\<close>

theorem unrecognised_step_skipped:
  assumes "i < length steps"
    and "(\<not> startswith (steps ! i) ''Button:'' \<and> \<not> startswith (steps ! i) ''Hold:'' \<and>
          \<not> startswith (steps ! i) ''Release:'' \<and> \<not> startswith (steps ! i) ''%'' \<and>
          \<not> startswith (steps ! i) ''&'' \<and> \<not> startswith (steps ! i) ''Stick:'' \<and>
          \<not> startswith (steps ! i) ''Wait:'') \<or>
         (startswith (steps ! i) ''%'' \<and>
            length (split_on CHR '','' (drop 1 (steps ! i))) \<noteq> 2) \<or>
         (startswith (steps ! i) ''&'' \<and>
            length (split_on CHR '','' (drop 1 (steps ! i))) \<noteq> 2) \<or>
         (startswith (steps ! i) ''Stick:'' \<and>
            length (split_on CHR '','' (drop 6 (steps ! i))) \<noteq> 2)"
  shows "loop_body lim steps i s = (Inr False, s) \<and>
         run_steps lim steps i s = run_steps lim steps (i + 1) s"
proof -
  let ?t = "steps ! i"
  consider
      (other) "\<not> startswith ?t ''Button:''" "\<not> startswith ?t ''Hold:''"
        "\<not> startswith ?t ''Release:''" "\<not> startswith ?t ''%''" "\<not> startswith ?t ''&''"
        "\<not> startswith ?t ''Stick:''" "\<not> startswith ?t ''Wait:''"
    | (left) "startswith ?t ''%''" "length (split_on CHR '','' (drop 1 ?t)) \<noteq> 2"
    | (right) "startswith ?t ''&''" "length (split_on CHR '','' (drop 1 ?t)) \<noteq> 2"
    | (legacy) "startswith ?t ''Stick:''" "length (split_on CHR '','' (drop 6 ?t)) \<noteq> 2"
    using assms(2) by blast
  then have body: "loop_body lim steps i s = (Inr False, s)"
  proof cases
    case other
    then show ?thesis
      by (simp add: loop_body_def Let_def return_def)
  next
    case left
    from left(1) obtain cs where t: "?t = CHR ''%'' # cs"
      by (cases ?t) auto
    show ?thesis
      using stick_move_skip [OF left(2), of "''LEFT''" s] t
      by (simp add: loop_body_def Let_def return_def and_then_def)
  next
    case right
    from right(1) obtain cs where t: "?t = CHR ''&'' # cs"
      by (cases ?t) auto
    show ?thesis
      using stick_move_skip [OF right(2), of "''RIGHT''" s] t
      by (simp add: loop_body_def Let_def return_def and_then_def)
  next
    case legacy
    from legacy(1) obtain cs where t: "?t = CHR ''S'' # cs"
      by (cases ?t) auto
    show ?thesis
      using stick_move_skip [OF legacy(2), of "''LEFT''" s] t legacy(1)
      by (simp add: loop_body_def Let_def return_def and_then_def)
  qed
  show ?thesis
    using body run_steps_step [OF assms(1) body] by simp
qed

theorem unrecognised_step_skipped_witness:
  "test_macro 4294967295 (playing [] [''Jump!'', ''%1,2,3'', ''Stick:7'']) =
     (playing [] [''Jump!'', ''%1,2,3'', ''Stick:7''])\<lparr>test_status_var := Status ''Macro sent!''\<rparr>"
  using unrecognised_step_skipped [of 0 "[''Jump!'', ''%1,2,3'', ''Stick:7'']" 4294967295
      "playing [] [''Jump!'', ''%1,2,3'', ''Stick:7'']"]
    unrecognised_step_skipped [of 1 "[''Jump!'', ''%1,2,3'', ''Stick:7'']" 4294967295
      "playing [] [''Jump!'', ''%1,2,3'', ''Stick:7'']"]
    unrecognised_step_skipped [of "Suc (Suc 0)" "[''Jump!'', ''%1,2,3'', ''Stick:7'']" 4294967295
      "playing [] [''Jump!'', ''%1,2,3'', ''Stick:7'']"]
  by (simp add: test_macro_def macro_steps_def playing_def init_app_def run_steps_end)

section \<open>Stick coordinates\<close>




section \<open>Sending a command\<close>

text \<open>
  Claim C7 says that a failed write forces the client into the disconnected state. The
  program does not do that: after a \<open>sendall\<close> that raises, \<open>switch_connected\<close> is still
  true and \<open>switch_socket\<close> still holds the socket, also when the failure comes up during
  playback.
\<close>

theorem send_failure_keeps_connection:
  "send_sysbot_cmd ''click A'' (playing [Some ''Broken pipe''] [''Button:A'']) =
     (Inl (OSError ''Broken pipe''), playing [] [''Button:A'']) \<and>
   test_macro 4294967295 (playing [Some ''Broken pipe''] [''Button:A'']) =
     (playing [] [''Button:A''])\<lparr>test_status_var := StatusError (OSError ''Broken pipe'')\<rparr> \<and>
   switch_connected (test_macro 4294967295 (playing [Some ''Broken pipe''] [''Button:A''])) \<and>
   switch_socket (test_macro 4294967295 (playing [Some ''Broken pipe''] [''Button:A''])) \<noteq> None"
  by (simp add: test_macro_def macro_steps_def playing_def init_app_def run_steps_unfold
      run_steps_end loop_body_def Let_def and_then_def return_def settle_def
      send_sysbot_cmd_def sendall_def is_ascii_def upper_def upper_char_def)

text \<open>
  Claim C7, as amended. \<open>_send_sysbot_cmd\<close> raises \<open>RuntimeError("Not connected")\<close> where
  there is no socket and writes nothing; a command with a character outside ASCII raises
  at the encoding and writes nothing; otherwise it hands exactly the command followed by
  a newline to \<open>sendall\<close>, and where \<open>sendall\<close> raises, the exception goes to the caller.
  In no case does it change \<open>switch_connected\<close> or drop the socket.
\<close>

theorem send_sysbot_cmd_outcomes:
  "(switch_socket s = None \<longrightarrow>
      send_sysbot_cmd cmd s = (Inl (RuntimeError ''Not connected''), s)) \<and>
   (switch_socket s = Some k \<and> \<not> list_all is_ascii cmd \<longrightarrow>
      send_sysbot_cmd cmd s = (Inl UnicodeEncodeError, s)) \<and>
   (switch_socket s = Some k \<and> list_all is_ascii cmd \<and> sendall k = (None, k') \<longrightarrow>
      send_sysbot_cmd cmd s =
        (Inr (), s\<lparr>switch_socket := Some k',
                    trace := trace s @ [Sent (cmd @ [CHR 0x0A])]\<rparr>)) \<and>
   (switch_socket s = Some k \<and> list_all is_ascii cmd \<and> sendall k = (Some msg, k') \<longrightarrow>
      send_sysbot_cmd cmd s = (Inl (OSError msg), s\<lparr>switch_socket := Some k'\<rparr>)) \<and>
   switch_connected (snd (send_sysbot_cmd cmd s)) = switch_connected s \<and>
   (switch_socket (snd (send_sysbot_cmd cmd s)) = None) = (switch_socket s = None)"
  by (auto simp: send_sysbot_cmd_def is_ascii_def split: option.splits prod.splits)

theorem send_sysbot_cmd_outcomes_witness:
  "send_sysbot_cmd ''click A'' init_app = (Inl (RuntimeError ''Not connected''), init_app) \<and>
   send_sysbot_cmd [CHR 0xE9] (playing [] []) = (Inl UnicodeEncodeError, playing [] []) \<and>
   send_sysbot_cmd ''click A'' (playing [None] []) =
     (Inr (), (playing [] [])\<lparr>trace := [Sent ''click A\<newline>'']\<rparr>) \<and>
   send_sysbot_cmd ''click A'' (playing [Some ''Broken pipe''] []) =
     (Inl (OSError ''Broken pipe''), playing [] []) \<and>
   switch_connected (snd (send_sysbot_cmd ''click A'' (playing [Some ''Broken pipe''] [])))"
  using send_sysbot_cmd_outcomes [of init_app "''click A''" "[]" "[]" "[]"]
    send_sysbot_cmd_outcomes [of "playing [] []" "[CHR 0xE9]" "[]" "[]" "[]"]
    send_sysbot_cmd_outcomes [of "playing [None] []" "''click A''" "[None]" "[]" "[]"]
    send_sysbot_cmd_outcomes [of "playing [Some ''Broken pipe''] []" "''click A''"
      "[Some ''Broken pipe'']" "[]" "''Broken pipe''"]
  by (simp add: playing_def init_app_def sendall_def is_ascii_def)

section \<open>Playback that fails\<close>





section \<open>The preview\<close>

text \<open>
  Claim C8. \<open>_update_preview\<close> writes two texts for the steps in the list box. The raw text
  is the steps joined by a comma. The interpreted text is the interpreted steps joined by a
  newline, one interpreted step for each step; \<open>Button:\<close> followed by a name is interpreted
  as \<open>Press\<close> and the name, \<open>Wait:\<close> followed by a duration as \<open>Wait\<close>, the duration and
  \<open>ms\<close>. Where there is a step and no step holds a newline, the lines of the interpreted
  text are exactly the interpreted steps, in order.
\<close>

theorem preview_texts:
  "preview (update_preview s) = join '','' (steps_listbox s) \<and>
   interp_preview (update_preview s) = join [CHR 0x0A] (map interpret_step (steps_listbox s)) \<and>
   length (map interpret_step (steps_listbox s)) = length (steps_listbox s) \<and>
   interpret_step (''Button:'' @ b) = ''Press '' @ b \<and>
   interpret_step (''Wait:'' @ ms) = ''Wait '' @ ms @ '' ms'' \<and>
   (steps_listbox s \<noteq> [] \<and> (\<forall>t \<in> set (steps_listbox s). CHR 0x0A \<notin> set t) \<longrightarrow>
      split_on CHR 0x0A (interp_preview (update_preview s)) =
        map interpret_step (steps_listbox s))"
proof -
  have lines: "split_on CHR 0x0A (join [CHR 0x0A] (map interpret_step (steps_listbox s))) =
      map interpret_step (steps_listbox s)"
    if "steps_listbox s \<noteq> []" and "\<forall>t \<in> set (steps_listbox s). CHR 0x0A \<notin> set t"
  proof (rule split_on_join)
    show "map interpret_step (steps_listbox s) \<noteq> []"
      using that(1) by simp
    show "\<forall>x \<in> set (map interpret_step (steps_listbox s)). CHR 0x0A \<notin> set x"
      using that(2) interpret_step_newline by auto
  qed
  show ?thesis
    unfolding update_preview_fields interpret_step_examples using lines by simp
qed

theorem preview_texts_witness:
  "preview (update_preview (init_app\<lparr>steps_listbox := [''Button:A'', ''Wait:250'']\<rparr>)) =
     ''Button:A,Wait:250'' \<and>
   interp_preview (update_preview (init_app\<lparr>steps_listbox := [''Button:A'', ''Wait:250'']\<rparr>)) =
     ''Press A\<newline>Wait 250 ms'' \<and>
   split_on CHR 0x0A
     (interp_preview (update_preview (init_app\<lparr>steps_listbox := [''Button:A'', ''Wait:250'']\<rparr>))) =
     [''Press A'', ''Wait 250 ms'']"
  using preview_texts [of "init_app\<lparr>steps_listbox := [''Button:A'', ''Wait:250'']\<rparr>" "''A''" "''250''"]
  by (simp del: split_on.simps add: init_app_def interpret_step_def update_preview_fields)


section \<open>Saving a macro\<close>

text \<open>
  Claim C9. \<open>_save_macro\<close> looks at the stripped name, the stripped trigger and the steps, in
  this order, and at the first that is empty it shows the error for that field
  (\<open>Macro name is required.\<close>, \<open>Trigger is required.\<close>, \<open>At least one step is required.\<close>)
  and returns with nothing else changed: the macros and the stored step lists are as
  before and no \<open>Saved\<close> message is shown. Where all three are non-empty, the macro built
  from them replaces the selected macro, or is appended where none is selected, and the
  \<open>Saved\<close> message is shown.
\<close>

theorem save_macro_validation:
  "(strip (name_var s) = [] \<longrightarrow>
      save_macro s = s\<lparr>dialogs := dialogs s @ [ShowError ''Error'' ''Macro name is required.'']\<rparr>) \<and>
   (strip (name_var s) \<noteq> [] \<and> strip (trigger_var s) = [] \<longrightarrow>
      save_macro s = s\<lparr>dialogs := dialogs s @ [ShowError ''Error'' ''Trigger is required.'']\<rparr>) \<and>
   (strip (name_var s) \<noteq> [] \<and> strip (trigger_var s) \<noteq> [] \<and> steps_listbox s = [] \<longrightarrow>
      save_macro s =
        s\<lparr>dialogs := dialogs s @ [ShowError ''Error'' ''At least one step is required.'']\<rparr>) \<and>
   (strip (name_var s) = [] \<or> strip (trigger_var s) = [] \<or> steps_listbox s = [] \<longrightarrow>
      macros (save_macro s) = macros s \<and> heap (save_macro s) = heap s \<and>
      (\<forall>t. ShowInfo ''Saved'' t \<notin> set (dialogs (save_macro s)) - set (dialogs s))) \<and>
   (strip (name_var s) \<noteq> [] \<and> strip (trigger_var s) \<noteq> [] \<and> steps_listbox s \<noteq> [] \<longrightarrow>
      macros (save_macro s) =
        (case selected_index s of
           None \<Rightarrow> macros s @ [\<lparr>m_name = Some (strip (name_var s)),
                      m_trigger = Some (strip (trigger_var s)),
                      m_chat_command = Some (strip (trigger_var s)),
                      m_steps = Some (length (heap s))\<rparr>]
         | Some i \<Rightarrow>
             if i < length (macros s) then
               (macros s)[i := \<lparr>m_name = Some (strip (name_var s)),
                      m_trigger = Some (strip (trigger_var s)),
                      m_chat_command = Some (strip (trigger_var s)),
                      m_steps = Some (length (heap s))\<rparr>]
             else macros s @ [\<lparr>m_name = Some (strip (name_var s)),
                      m_trigger = Some (strip (trigger_var s)),
                      m_chat_command = Some (strip (trigger_var s)),
                      m_steps = Some (length (heap s))\<rparr>]) \<and>
      heap (save_macro s) = heap s @ [steps_listbox s] \<and>
      dialogs (save_macro s) =
        dialogs s @ [ShowInfo ''Saved''
          (''Macro '' @ [CHR 0x27] @ strip (name_var s) @ [CHR 0x27] @ '' saved.'')])"
proof -
  have blocked: "macros (save_macro s) = macros s \<and> heap (save_macro s) = heap s \<and>
      (\<forall>t. ShowInfo ''Saved'' t \<notin> set (dialogs (save_macro s)) - set (dialogs s))"
    if h: "strip (name_var s) = [] \<or> strip (trigger_var s) = [] \<or> steps_listbox s = []"
  proof -
    consider "strip (name_var s) = []"
      | "strip (name_var s) \<noteq> []" "strip (trigger_var s) = []"
      | "strip (name_var s) \<noteq> []" "strip (trigger_var s) \<noteq> []" "steps_listbox s = []"
      using h by blast
    then show ?thesis
    proof cases
      case 1
      show ?thesis unfolding save_macro_blocked(1) [OF 1] by simp
    next
      case 2
      show ?thesis unfolding save_macro_blocked(2) [OF 2] by simp
    next
      case 3
      show ?thesis unfolding save_macro_blocked(3) [OF 3] by simp
    qed
  qed
  show ?thesis
    using save_macro_blocked [of s] save_macro_stored [of s] blocked by blast
qed

theorem save_macro_validation_witness:
  "save_macro (init_app\<lparr>name_var := ''  '', trigger_var := ''!jump'', steps_listbox := [''Button:A'']\<rparr>) =
     init_app\<lparr>name_var := ''  '', trigger_var := ''!jump'', steps_listbox := [''Button:A''],
       dialogs := [ShowError ''Error'' ''Macro name is required.'']\<rparr> \<and>
   save_macro (init_app\<lparr>name_var := ''Jump'', trigger_var := '' '', steps_listbox := [''Button:A'']\<rparr>) =
     init_app\<lparr>name_var := ''Jump'', trigger_var := '' '', steps_listbox := [''Button:A''],
       dialogs := [ShowError ''Error'' ''Trigger is required.'']\<rparr> \<and>
   save_macro (init_app\<lparr>name_var := ''Jump'', trigger_var := ''!jump''\<rparr>) =
     init_app\<lparr>name_var := ''Jump'', trigger_var := ''!jump'',
       dialogs := [ShowError ''Error'' ''At least one step is required.'']\<rparr> \<and>
   macros (save_macro (init_app\<lparr>name_var := ''Jump'', trigger_var := ''!jump''\<rparr>)) = [] \<and>
   macros (save_macro
       (init_app\<lparr>name_var := '' Jump '', trigger_var := ''!jump'', steps_listbox := [''Button:A'']\<rparr>)) =
     [\<lparr>m_name = Some ''Jump'', m_trigger = Some ''!jump'', m_chat_command = Some ''!jump'',
       m_steps = Some 0\<rparr>] \<and>
   heap (save_macro
       (init_app\<lparr>name_var := '' Jump '', trigger_var := ''!jump'', steps_listbox := [''Button:A'']\<rparr>)) =
     [[''Button:A'']] \<and>
   dialogs (save_macro
       (init_app\<lparr>name_var := '' Jump '', trigger_var := ''!jump'', steps_listbox := [''Button:A'']\<rparr>)) =
     [ShowInfo ''Saved'' ''Macro 'Jump' saved.'']"
proof -
  have st: "strip ''  '' = []" "strip '' '' = []" "strip ''Jump'' = ''Jump''"
    "strip '' Jump '' = ''Jump''" "strip ''!jump'' = ''!jump''"
    by (simp_all add: strip_def str_space_def)
  show ?thesis
    using
      save_macro_validation
        [of "init_app\<lparr>name_var := ''  '', trigger_var := ''!jump'', steps_listbox := [''Button:A'']\<rparr>"]
      save_macro_validation
        [of "init_app\<lparr>name_var := ''Jump'', trigger_var := '' '', steps_listbox := [''Button:A'']\<rparr>"]
      save_macro_validation [of "init_app\<lparr>name_var := ''Jump'', trigger_var := ''!jump''\<rparr>"]
      save_macro_validation
        [of "init_app\<lparr>name_var := '' Jump '', trigger_var := ''!jump'', steps_listbox := [''Button:A'']\<rparr>"]
    by (simp add: st init_app_def)
qed

end
